theory Spec2Isabelle
  imports Main "HOL-Library.Sublist" "HOL-Library.AList"
begin

section \<open>Strings: the functions of Go's \<open>strings\<close> and \<open>fmt\<close> packages that the program calls\<close>

text \<open>
  A Go string is a byte sequence, here a \<open>string\<close> (a \<open>char list\<close>). The functions below
  are the ones of the standard library that the backup and the restore command call.
\<close>

definition Contains :: "string \<Rightarrow> string \<Rightarrow> bool" where
  \<comment> \<open>\<open>strings.Contains(s, substr)\<close>: \<open>substr\<close> occurs in \<open>s\<close> as a contiguous run.\<close>
  "Contains s substr = sublist substr s"

definition HasSuffix :: "string \<Rightarrow> string \<Rightarrow> bool" where
  \<comment> \<open>\<open>strings.HasSuffix(s, suffix)\<close>\<close>
  "HasSuffix s suf = suffix suf s"

fun Replace :: "string \<Rightarrow> string \<Rightarrow> string \<Rightarrow> string" where
  \<comment> \<open>\<open>strings.Replace(s, old, new, -1)\<close> for a non-empty \<open>old\<close>, as at every call of the
      program: the non-overlapping occurrences of \<open>old\<close>, found from the left, become
      \<open>new\<close>. (With an empty \<open>old\<close> Go inserts \<open>new\<close> around every code point; no call
      passes one, and this function then returns \<open>s\<close>.)\<close>
  "Replace [] old new = []"
| "Replace (c # cs) old new =
     (if old \<noteq> [] \<and> prefix old (c # cs)
      then new @ Replace (drop (length old - 1) cs) old new
      else c # Replace cs old new)"

fun Split :: "string \<Rightarrow> string \<Rightarrow> string list" where
  \<comment> \<open>\<open>strings.Split(s, sep)\<close> for a non-empty \<open>sep\<close>, as at every call of the program:
      the pieces of \<open>s\<close> between the non-overlapping occurrences of \<open>sep\<close>, found from the
      left; never the empty list.\<close>
  "Split [] sep = [[]]"
| "Split (c # cs) sep =
     (if sep \<noteq> [] \<and> prefix sep (c # cs)
      then [] # Split (drop (length sep - 1) cs) sep
      else (case Split cs sep of [] \<Rightarrow> [[c]] | p # ps \<Rightarrow> (c # p) # ps))"

definition Println :: "string list \<Rightarrow> string" where
  \<comment> \<open>The line \<open>fmt.Println(a, b, ...)\<close> prints: the operands separated by one space
      (the final newline is left out: the output is kept as a list of lines).\<close>
  "Println xs = (case xs of [] \<Rightarrow> [] | y # ys \<Rightarrow> foldl (\<lambda>acc x. acc @ '' '' @ x) y ys)"

definition newline :: string where
  "newline = [CHR 0x0A]"

section \<open>Data model\<close>

text \<open>
  The records of the Docker API that the program reads. \<open>container.Config\<close>,
  \<open>container.HostConfig\<close> and \<open>types.NetworkSettings\<close> are declared outside this repository;
  each is modelled with the fields the program touches (the program touches no field of
  \<open>network.EndpointSettings\<close>: it stands with its address, gateway and aliases). A Go map is
  an association list with distinct keys; a pointer is an \<open>option\<close>, \<open>nil\<close> is \<open>None\<close>.
\<close>

record network_EndpointSettings =
  IPAddress :: string
  Gateway :: string
  Aliases :: "string list"

record Mount =
  Mount_Type :: string
  Mount_Source :: string
  Mount_Target :: string

record MountPoint =
  MountPoint_Type :: string
  MountPoint_Source :: string
  MountPoint_Destination :: string

record container_Config =
  Image :: string

record container_HostConfig =
  Mounts :: "Mount list"

record types_NetworkSettings =
  Networks :: "(string \<times> network_EndpointSettings option) list"

record network_NetworkingConfig =
  EndpointsConfig :: "(string \<times> network_EndpointSettings option) list"

text \<open>\<open>type Backup struct\<close> of the backup command.\<close>

record Backup =
  Name :: string
  Config :: "container_Config option"
  HostConfig :: "container_HostConfig option"
  NetworkSettings :: "types_NetworkSettings option"
  Platform :: string

text \<open>What \<open>cli.ContainerInspect\<close>, \<open>cli.ImageList\<close> and \<open>cli.ContainerList\<close> return.\<close>

record ContainerJSON =
  cj_ID :: string
  cj_Name :: string
  cj_Config :: "container_Config option"
  cj_HostConfig :: "container_HostConfig option"
  cj_NetworkSettings :: "types_NetworkSettings option"
  cj_Platform :: string
  cj_Mounts :: "MountPoint list"

record image_Summary =
  img_ID :: string
  RepoTags :: "string list"

record container_Summary =
  cs_ID :: string

text \<open>
  \<open>tar.Header\<close>, with the fields \<open>backupTar\<close> sets (it sets no \<open>Format\<close>). A time is a
  number of nanoseconds since the zero \<open>time.Time\<close>, which is 0.
\<close>

record tar_Header =
  hdr_Name :: string
  hdr_Size :: int
  hdr_ModTime :: nat
  hdr_AccessTime :: nat
  hdr_ChangeTime :: nat
  hdr_Mode :: int

text \<open>
  A tar stream as \<open>tar.Reader\<close> sees it: \<open>Entry h d\<close> is an entry with header \<open>h\<close> whose
  body reads as \<open>d\<close>; \<open>Truncated h e\<close> is an entry whose header reads and whose body fails
  with \<open>e\<close> (in \<open>ioutil.ReadAll\<close>, or in the following \<open>Next\<close> when the body is skipped);
  \<open>Corrupt e\<close> is a place where \<open>Next\<close> fails with \<open>e\<close>. The end of the list is \<open>io.EOF\<close>.
\<close>

datatype tar_item = Entry tar_Header string | Truncated tar_Header string | Corrupt string

datatype content = Bytes string | TarArchive "tar_item list"

text \<open>How a Go function ends when it does not return normally: an \<open>error\<close> (its message) or a panic.\<close>

datatype panic = SliceBoundsOutOfRange | NilPointerDereference | PanicValue string

datatype failure = Error string | Panic panic

datatype call =
    Call_ContainerCreate "container_Config option" "container_HostConfig option"
      "network_NetworkingConfig option" string
  | Call_ContainerStart string
  | Call_Exec string "string list"

text \<open>
  The collaborators the program does not own: \<open>encoding/json\<close> on the Docker records,
  \<open>sanitize.Path\<close>, the Docker client, the process launcher, the clock and the failures
  of the file system (\<open>io_fail k\<close> is the error of the \<open>k\<close>-th file operation, if it fails).
\<close>

record env =
  MarshalIndent :: "Backup \<Rightarrow> string + string"
  Unmarshal :: "string \<Rightarrow> string + Backup"
  sanitize_Path :: "string \<Rightarrow> string"
  ContainerInspect :: "string \<Rightarrow> string + ContainerJSON"
  ImageList :: "string + image_Summary list"
  ContainerList :: "bool \<Rightarrow> string + container_Summary list"
  ContainerCreate :: "container_Config option \<Rightarrow> container_HostConfig option \<Rightarrow>
    network_NetworkingConfig option \<Rightarrow> string \<Rightarrow> string + string"
  ContainerStart :: "string \<Rightarrow> string option"
  exec_Run :: "string \<Rightarrow> string list \<Rightarrow> string option"
  tar_bytes :: "tar_item list \<Rightarrow> string"
  time_Now :: "nat \<Rightarrow> nat"
  io_fail :: "nat \<Rightarrow> string option"

text \<open>The command-line flags (the package variables \<open>optLaunch\<close> ... \<open>optStart\<close>).\<close>

record opts =
  optLaunch :: string
  optTar :: bool
  optAll :: bool
  optStopped :: bool
  optVerbose :: bool
  optStart :: bool

text \<open>
  What the program changes: the files, the lines printed, the calls made to the runtime and
  to the process launcher, and how many file operations and clock readings happened.
\<close>

record world =
  files :: "string \<rightharpoonup> content"
  stdout :: "string list"
  calls :: "call list"
  io_ops :: nat
  clock_reads :: nat

type_synonym 'a io = "world \<Rightarrow> (failure + 'a) \<times> world"

section \<open>The file system, the clock and the tar writer and reader\<close>

definition print :: "string \<Rightarrow> world \<Rightarrow> world" where
  "print s w = w\<lparr>stdout := stdout w @ [s]\<rparr>"

definition record_call :: "call \<Rightarrow> world \<Rightarrow> world" where
  "record_call c w = w\<lparr>calls := calls w @ [c]\<rparr>"

definition io_step :: "env \<Rightarrow> world \<Rightarrow> string option \<times> world" where
  \<comment> \<open>One file operation: whether it fails, and the world that has counted it.\<close>
  "io_step E w = (io_fail E (io_ops w), w\<lparr>io_ops := Suc (io_ops w)\<rparr>)"

definition Now :: "env \<Rightarrow> world \<Rightarrow> nat \<times> world" where
  \<comment> \<open>\<open>time.Now()\<close>\<close>
  "Now E w = (time_Now E (clock_reads w), w\<lparr>clock_reads := Suc (clock_reads w)\<rparr>)"

definition os_Create :: "env \<Rightarrow> string \<Rightarrow> world \<Rightarrow> (string + unit) \<times> world" where
  \<comment> \<open>\<open>os.Create(path)\<close>: the file exists and is empty afterwards.\<close>
  "os_Create E path w =
     (case io_step E w of
        (Some e, w') \<Rightarrow> (Inl e, w')
      | (None, w') \<Rightarrow> (Inr (), w'\<lparr>files := (files w')(path \<mapsto> Bytes [])\<rparr>))"

definition WriteFile :: "env \<Rightarrow> string \<Rightarrow> string \<Rightarrow> world \<Rightarrow> (string + unit) \<times> world" where
  \<comment> \<open>\<open>ioutil.WriteFile(path, b, 0600)\<close>\<close>
  "WriteFile E path b w =
     (case io_step E w of
        (Some e, w') \<Rightarrow> (Inl e, w')
      | (None, w') \<Rightarrow> (Inr (), w'\<lparr>files := (files w')(path \<mapsto> Bytes b)\<rparr>))"

definition file_bytes :: "env \<Rightarrow> content \<Rightarrow> string" where
  "file_bytes E c = (case c of Bytes b \<Rightarrow> b | TarArchive items \<Rightarrow> tar_bytes E items)"

definition WriteString :: "env \<Rightarrow> string \<Rightarrow> string \<Rightarrow> world \<Rightarrow> (string + unit) \<times> world" where
  \<comment> \<open>\<open>f.WriteString(s)\<close> on the file opened at \<open>path\<close>: \<open>s\<close> is appended.\<close>
  "WriteString E path s w =
     (case io_step E w of
        (Some e, w') \<Rightarrow> (Inl e, w')
      | (None, w') \<Rightarrow>
          (Inr (), w'\<lparr>files := (files w')(path \<mapsto>
             Bytes ((case files w' path of None \<Rightarrow> [] | Some c \<Rightarrow> file_bytes E c) @ s))\<rparr>))"

definition no_such_file :: "string \<Rightarrow> string" where
  "no_such_file path = ''open '' @ path @ '': no such file or directory''"

definition ReadFile :: "env \<Rightarrow> string \<Rightarrow> world \<Rightarrow> (string + string) \<times> world" where
  \<comment> \<open>\<open>ioutil.ReadFile(path)\<close>\<close>
  "ReadFile E path w =
     (case io_step E w of
        (Some e, w') \<Rightarrow> (Inl e, w')
      | (None, w') \<Rightarrow>
          (case files w' path of
             None \<Rightarrow> (Inl (no_such_file path), w')
           | Some c \<Rightarrow> (Inr (file_bytes E c), w')))"

definition zero_block :: "string \<Rightarrow> bool" where
  \<comment> \<open>The next 512 bytes are a block of zero bytes.\<close>
  "zero_block b = (512 \<le> length b \<and> list_all (\<lambda>x. x = CHR 0x00) (take 512 b))"

definition tar_items :: "content \<Rightarrow> tar_item list" where
  \<comment> \<open>What \<open>tar.NewReader\<close> reads from a file. From bytes that are not an archive: an empty
      file, one block of zeros, or two, end the archive at once; less than a block is an
      unexpected end of file; any other first block is not a header.\<close>
  "tar_items c =
     (case c of
        TarArchive items \<Rightarrow> items
      | Bytes b \<Rightarrow>
          (if b = [] then []
           else if length b < 512 then [Corrupt ''unexpected EOF'']
           else if zero_block b then
             (if drop 512 b = [] then []
              else if length (drop 512 b) < 512 then [Corrupt ''unexpected EOF'']
              else if zero_block (drop 512 b) then []
              else [Corrupt ''archive/tar: invalid tar header''])
           else [Corrupt ''archive/tar: invalid tar header'']))"

definition os_Open :: "env \<Rightarrow> string \<Rightarrow> world \<Rightarrow> (string + content) \<times> world" where
  \<comment> \<open>\<open>os.Open(path)\<close>, returning what the opened file holds.\<close>
  "os_Open E path w =
     (case io_step E w of
        (Some e, w') \<Rightarrow> (Inl e, w')
      | (None, w') \<Rightarrow>
          (case files w' path of
             None \<Rightarrow> (Inl (no_such_file path), w')
           | Some c \<Rightarrow> (Inr c, w')))"

definition Round_Second :: "nat \<Rightarrow> nat" where
  \<comment> \<open>\<open>t.Round(time.Second)\<close>: the nearest whole second, half a second rounding up.\<close>
  "Round_Second t = ((t + 500000000) div 1000000000) * 1000000000"

definition written_header :: "tar_Header \<Rightarrow> tar_Header" where
  \<comment> \<open>What \<open>WriteHeader\<close> records of a header whose \<open>Format\<close> is not set, as the one
      \<open>backupTar\<close> builds: \<open>ModTime\<close> rounded to the second, \<open>AccessTime\<close> and \<open>ChangeTime\<close>
      cleared to the zero time.\<close>
  "written_header th =
     th\<lparr>hdr_ModTime := Round_Second (hdr_ModTime th), hdr_AccessTime := 0, hdr_ChangeTime := 0\<rparr>"

definition tar_WriteHeader :: "env \<Rightarrow> string \<Rightarrow> tar_Header \<Rightarrow> world \<Rightarrow> (string + unit) \<times> world" where
  \<comment> \<open>\<open>tw.WriteHeader(th)\<close> on the writer over the file at \<open>path\<close>: the header is in the
      file as the writer records it, its body is not yet.\<close>
  "tar_WriteHeader E path th w =
     (case io_step E w of
        (Some e, w') \<Rightarrow> (Inl e, w')
      | (None, w') \<Rightarrow>
          (Inr (), w'\<lparr>files := (files w')(path \<mapsto>
             TarArchive ((case files w' path of None \<Rightarrow> [] | Some c \<Rightarrow> tar_items c)
               @ [Truncated (written_header th) ''unexpected EOF'']))\<rparr>))"

fun tar_fill :: "tar_item list \<Rightarrow> string \<Rightarrow> tar_item list" where
  \<comment> \<open>The body \<open>b\<close> written for the last header.\<close>
  "tar_fill [] b = []"
| "tar_fill [Truncated th e] b = [Entry th b]"
| "tar_fill (x # y # ys) b = x # tar_fill (y # ys) b"
| "tar_fill [x] b = [x]"

definition tar_Write :: "env \<Rightarrow> string \<Rightarrow> string \<Rightarrow> world \<Rightarrow> (string + unit) \<times> world" where
  \<comment> \<open>\<open>tw.Write(b)\<close>: fails with \<open>ErrWriteTooLong\<close> when \<open>b\<close> is longer than the size the
      header announced.\<close>
  "tar_Write E path b w =
     (case io_step E w of
        (Some e, w') \<Rightarrow> (Inl e, w')
      | (None, w') \<Rightarrow>
          (case files w' path of
             Some (TarArchive items) \<Rightarrow>
               (case last items of
                  Truncated th e \<Rightarrow>
                    (if int (length b) \<le> hdr_Size th
                     then (Inr (), w'\<lparr>files := (files w')(path \<mapsto> TarArchive (tar_fill items b))\<rparr>)
                     else (Inl ''archive/tar: write too long'', w'))
                | _ \<Rightarrow> (Inl ''archive/tar: write too long'', w'))
           | _ \<Rightarrow> (Inl ''archive/tar: write too long'', w')))"

definition tar_Close :: "env \<Rightarrow> string \<Rightarrow> world \<Rightarrow> (string + unit) \<times> world" where
  \<comment> \<open>\<open>tw.Close()\<close>: the padding and the trailer are written; when that fails the archive
      ends damaged.\<close>
  "tar_Close E path w =
     (case io_step E w of
        (Some e, w') \<Rightarrow>
          (Inl e, w'\<lparr>files := (files w')(path \<mapsto>
             TarArchive ((case files w' path of None \<Rightarrow> [] | Some c \<Rightarrow> tar_items c) @ [Corrupt e]))\<rparr>)
      | (None, w') \<Rightarrow> (Inr (), w'))"

section \<open>The backup command\<close>

definition backupTar :: "env \<Rightarrow> string \<Rightarrow> Backup \<Rightarrow> unit io" where
  \<comment> \<open>\<open>func backupTar(filename string, backup Backup) error\<close>. The three \<open>time.Now()\<close> of the
      header literal are three readings of the clock, in the order written. The result of
      \<open>tw.Close()\<close> is dropped, as in the source.\<close>
  "backupTar E filename backup w =
     (case MarshalIndent E backup of
        Inl e \<Rightarrow> (Inl (Error e), w)
      | Inr b \<Rightarrow>
          (case os_Create E (filename @ ''.tar'') w of
             (Inl e, w1) \<Rightarrow> (Inl (Error e), w1)
           | (Inr _, w1) \<Rightarrow>
               (let (t1, w2) = Now E w1;
                    (t2, w3) = Now E w2;
                    (t3, w4) = Now E w3;
                    th = \<lparr>hdr_Name = ''container.json'',
                          hdr_Size = int (length b),
                          hdr_ModTime = t1,
                          hdr_AccessTime = t2,
                          hdr_ChangeTime = t3,
                          hdr_Mode = 384\<rparr>
                in (case tar_WriteHeader E (filename @ ''.tar'') th w4 of
                      (Inl e, w5) \<Rightarrow> (Inl (Error e), w5)
                    | (Inr _, w5) \<Rightarrow>
                        (case tar_Write E (filename @ ''.tar'') b w5 of
                           (Inl e, w6) \<Rightarrow> (Inl (Error e), w6)
                         | (Inr _, w6) \<Rightarrow>
                             (let w7 = snd (tar_Close E (filename @ ''.tar'') w6)
                              in (Inr (), print (Println [''Created backup:'', filename @ ''.tar'']) w7)))))))"

fun first_matching_tag :: "string list \<Rightarrow> string \<Rightarrow> string option" where
  \<comment> \<open>The inner loop of \<open>getFullImageName\<close>: \<open>for _, tag := range image.RepoTags\<close>.\<close>
  "first_matching_tag [] imageName = None"
| "first_matching_tag (tag # tags) imageName =
     (if \<not> Contains tag imageName then first_matching_tag tags imageName else Some tag)"

fun getFullImageName_loop :: "image_Summary list \<Rightarrow> string \<Rightarrow> string" where
  \<comment> \<open>The outer loop of \<open>getFullImageName\<close>: \<open>for _, image := range images\<close>, and the
      return after it.\<close>
  "getFullImageName_loop [] imageName = imageName"
| "getFullImageName_loop (img # images) imageName =
     (if (\<not> Contains imageName (img_ID img)) \<or> length (RepoTags img) = 0
      then getFullImageName_loop images imageName
      else (case first_matching_tag (RepoTags img) imageName of
              Some tag \<Rightarrow> tag
            | None \<Rightarrow> RepoTags img ! 0))"

definition getFullImageName :: "env \<Rightarrow> string \<Rightarrow> string + string" where
  \<comment> \<open>\<open>func getFullImageName(imageName string) (string, error)\<close>\<close>
  "getFullImageName E imageName =
     (if Contains imageName '':'' then Inr imageName
      else (case ImageList E of
              Inl e \<Rightarrow> Inl e
            | Inr images \<Rightarrow> Inr (getFullImageName_loop images imageName)))"

definition backup_filename :: "env \<Rightarrow> string \<Rightarrow> string \<Rightarrow> string" where
  \<comment> \<open>Lines 146-147 of \<open>backup\<close>: \<open>sanitize.Path(fmt.Sprintf("%s-%s", conf.Config.Image, ID))\<close>,
      then every \<open>/\<close> replaced by \<open>_\<close>.\<close>
  "backup_filename E img ID = Replace (sanitize_Path E (img @ ''-'' @ ID)) ''/'' ''_''"

fun write_paths :: "env \<Rightarrow> string \<Rightarrow> string list \<Rightarrow> world \<Rightarrow> (string + unit) \<times> world" where
  \<comment> \<open>\<open>for _, s := range paths\<close> of \<open>backup\<close>\<close>
  "write_paths E path [] w = (Inr (), w)"
| "write_paths E path (s # ss) w =
     (case WriteString E path (s @ newline) w of
        (Inl e, w') \<Rightarrow> (Inl e, w')
      | (Inr _, w') \<Rightarrow> write_paths E path ss w')"

definition backup_launch :: "env \<Rightarrow> string \<Rightarrow> string \<Rightarrow> unit io" where
  \<comment> \<open>Lines 183-191 of \<open>backup\<close>, the body of \<open>if optLaunch != ""\<close>. \<open>strings.Split\<close> never
      returns an empty slice, so \<open>l[0]\<close> exists.\<close>
  "backup_launch E launch filename w =
     (let ol = Replace launch ''%tag'' filename;
          ol = Replace ol ''%list'' (filename @ ''.backup.files'');
          w1 = print (Println [''Launching external command and waiting for it to finish:'']) w;
          w2 = print (Println [ol]) w1;
          l = Split ol '' '';
          w3 = record_call (Call_Exec (hd l) (tl l)) w2
      in (case exec_Run E (hd l) (tl l) of
            Some e \<Rightarrow> (Inl (Error e), w3)
          | None \<Rightarrow> (Inr (), w3)))"

definition backup_json :: "env \<Rightarrow> opts \<Rightarrow> string \<Rightarrow> Backup \<Rightarrow> unit io" where
  \<comment> \<open>Lines 152-194 of \<open>backup\<close>, the plain-JSON artifact; \<open>paths\<close> is the package variable
      that line 131 has set to the empty slice.\<close>
  "backup_json E F filename backup w =
     (let paths = [] in
      case MarshalIndent E backup of
        Inl e \<Rightarrow> (Inl (Error e), w)
      | Inr b \<Rightarrow>
          (case WriteFile E (filename @ ''.backup.json'') b w of
             (Inl e, w1) \<Rightarrow> (Inl (Error e), w1)
           | (Inr _, w1) \<Rightarrow>
               (case os_Create E (filename @ ''.backup.files'') w1 of
                  (Inl e, w2) \<Rightarrow> (Inl (Error e), w2)
                | (Inr _, w2) \<Rightarrow>
                    (case WriteString E (filename @ ''.backup.files'')
                            (filename @ ''.backup.json'' @ newline) w2 of
                       (Inl e, w3) \<Rightarrow> (Inl (Error e), w3)
                     | (Inr _, w3) \<Rightarrow>
                         (case write_paths E (filename @ ''.backup.files'') paths w3 of
                            (Inl e, w4) \<Rightarrow> (Inl (Error e), w4)
                          | (Inr _, w4) \<Rightarrow>
                              (let w5 = print (Println [''Created backup:'', filename @ ''.backup.json'']) w4
                               in if optLaunch F \<noteq> [] then backup_launch E (optLaunch F) filename w5
                                  else (Inr (), w5)))))))"

definition backup :: "env \<Rightarrow> opts \<Rightarrow> string \<Rightarrow> unit io" where
  \<comment> \<open>\<open>func backup(ID string) error\<close>. The operands of the \<open>Printf\<close> of line 129 are taken
      from the left: \<open>conf.Name[1:]\<close>, \<open>conf.Config.Image\<close>, \<open>conf.ID[:12]\<close>; each can panic.
      Line 133 stores the resolved image in \<open>conf.Config\<close>, the record \<open>backup.Config\<close>
      points to.\<close>
  "backup E F ID w =
     (case ContainerInspect E ID of
        Inl e \<Rightarrow> (Inl (Error e), w)
      | Inr conf \<Rightarrow>
          if length (cj_Name conf) < 1 then (Inl (Panic SliceBoundsOutOfRange), w)
          else (case cj_Config conf of
                  None \<Rightarrow> (Inl (Panic NilPointerDereference), w)
                | Some config \<Rightarrow>
                    if length (cj_ID conf) < 12 then (Inl (Panic SliceBoundsOutOfRange), w)
                    else
                      (let w1 = print (''Creating backup of '' @ drop 1 (cj_Name conf) @ '' (''
                                   @ Image config @ '', '' @ take 12 (cj_ID conf) @ '')'') w
                       in (case getFullImageName E (Image config) of
                             Inl e \<Rightarrow> (Inl (Error e), w1)
                           | Inr img \<Rightarrow>
                               (let backup = \<lparr>Name = cj_Name conf,
                                              Config = Some (config\<lparr>Image := img\<rparr>),
                                              HostConfig = cj_HostConfig conf,
                                              NetworkSettings = cj_NetworkSettings conf,
                                              Platform = cj_Platform conf\<rparr>;
                                    filename = backup_filename E img ID
                                in if optTar F then backupTar E filename backup w1
                                   else backup_json E F filename backup w1)))))"

fun backupAll_loop :: "env \<Rightarrow> opts \<Rightarrow> container_Summary list \<Rightarrow> unit io" where
  \<comment> \<open>\<open>for _, container := range containers\<close> of \<open>backupAll\<close>, and the return after it.\<close>
  "backupAll_loop E F [] w = (Inr (), w)"
| "backupAll_loop E F (container # containers) w =
     (case backup E F (cs_ID container) w of
        (Inl err, w') \<Rightarrow> (Inl err, w')
      | (Inr _, w') \<Rightarrow> backupAll_loop E F containers w')"

definition backupAll :: "env \<Rightarrow> opts \<Rightarrow> unit io" where
  \<comment> \<open>\<open>func backupAll() error\<close>\<close>
  "backupAll E F w =
     (case ContainerList E (optStopped F) of
        Inl err \<Rightarrow> (Inl (Panic (PanicValue err)), w)
      | Inr containers \<Rightarrow> backupAll_loop E F containers w)"

definition backupCmd :: "env \<Rightarrow> opts \<Rightarrow> string list \<Rightarrow> unit io" where
  \<comment> \<open>\<open>RunE\<close> of \<open>backupCmd\<close>\<close>
  "backupCmd E F args w =
     (if optAll F then backupAll E F w
      else if length args < 1 then (Inl (Error ''backup requires the ID of a container''), w)
      else backup E F (args ! 0) w)"

section \<open>The restore command (\<open>restore.go\<close>)\<close>

definition createContainer :: "env \<Rightarrow> Backup \<Rightarrow> string io" where
  \<comment> \<open>\<open>func createContainer(backup Backup) (string, error)\<close>. The loop over
      \<open>backup.NetworkSettings.Networks\<close> stores every pair in the fresh map \<open>ep\<close>.
      \<open>backup.HostConfig.Mounts\<close> of line 143 panics on a nil \<open>HostConfig\<close>.\<close>
  "createContainer E bkp w =
     (let nameparts = Split (Name bkp) ''/'';
          name = nameparts ! (length nameparts - 1);
          w1 = print (Println [''Restoring Container:'', name]) w;
          config = Config bkp;
          hostConfig = HostConfig bkp;
          networkConfig =
            (case NetworkSettings bkp of
               None \<Rightarrow> None
             | Some ns \<Rightarrow>
                 Some \<lparr>EndpointsConfig =
                   fold (\<lambda>(k, v) ep. AList.update k v ep) (Networks ns) []\<rparr>);
          w2 = record_call (Call_ContainerCreate config hostConfig networkConfig name) w1
      in (case ContainerCreate E config hostConfig networkConfig name of
            Inl err \<Rightarrow> (Inl (Error (''failed to create container: '' @ err)), w2)
          | Inr resp_ID \<Rightarrow>
              (let w3 = print (Println [''Created Container with ID:'', resp_ID]) w2
               in (case HostConfig bkp of
                     None \<Rightarrow> (Inl (Panic NilPointerDereference), w3)
                   | Some hc \<Rightarrow>
                       (let w4 = foldl (\<lambda>w m. print (''Old Mount (type '' @ Mount_Type m @ '') ''
                                    @ Mount_Source m @ '' -> '' @ Mount_Target m) w) w3 (Mounts hc)
                        in (case ContainerInspect E resp_ID of
                              Inl err \<Rightarrow> (Inl (Error err), w4)
                            | Inr conf \<Rightarrow>
                                (Inr resp_ID,
                                 foldl (\<lambda>w m. print (''New Mount (type '' @ MountPoint_Type m @ '') ''
                                    @ MountPoint_Source m @ '' -> '' @ MountPoint_Destination m) w)
                                   w4 (cj_Mounts conf))))))))"

definition startContainer :: "env \<Rightarrow> string \<Rightarrow> unit io" where
  \<comment> \<open>\<open>func startContainer(id string) error\<close>; \<open>id[:12]\<close> panics on a shorter \<open>id\<close>.\<close>
  "startContainer E cid w =
     (if length cid < 12 then (Inl (Panic SliceBoundsOutOfRange), w)
      else
        (let w1 = print (Println [''Starting container:'', take 12 cid]) w;
             w2 = record_call (Call_ContainerStart cid) w1
         in (case ContainerStart E cid of
               Some err \<Rightarrow> (Inl (Error err), w2)
             | None \<Rightarrow> (Inr (), w2))))"

fun restoreTar_loop :: "tar_item list \<Rightarrow> string \<Rightarrow> string + string" where
  \<comment> \<open>The \<open>for\<close> loop of \<open>restoreTar\<close> (lines 48-64) over the entries still to read, with
      the buffer \<open>b\<close>: the error returned, or \<open>b\<close> at \<open>io.EOF\<close>.\<close>
  "restoreTar_loop [] b = Inr b"
| "restoreTar_loop (Corrupt err # rest) b = Inl err"
| "restoreTar_loop (Truncated th err # rest) b = Inl err"
| "restoreTar_loop (Entry th d # rest) b =
     (if hdr_Name th = ''container.json'' then restoreTar_loop rest d
      else restoreTar_loop rest b)"

definition restoreTar_read :: "env \<Rightarrow> string \<Rightarrow> Backup io" where
  \<comment> \<open>Lines 40-70 of \<open>restoreTar\<close>: the record decoded from the archive. \<open>var b []byte\<close>
      starts empty.\<close>
  "restoreTar_read E filename w =
     (case os_Open E filename w of
        (Inl err, w1) \<Rightarrow> (Inl (Error err), w1)
      | (Inr tarfile, w1) \<Rightarrow>
          (case restoreTar_loop (tar_items tarfile) [] of
             Inl err \<Rightarrow> (Inl (Error err), w1)
           | Inr b \<Rightarrow>
               (case Unmarshal E b of
                  Inl err \<Rightarrow> (Inl (Error err), w1)
                | Inr bkp \<Rightarrow> (Inr bkp, w1))))"

definition restore_read :: "env \<Rightarrow> string \<Rightarrow> Backup io" where
  \<comment> \<open>Lines 84-92 of \<open>restore\<close>: the record decoded from the file.\<close>
  "restore_read E filename w =
     (case ReadFile E filename w of
        (Inl err, w1) \<Rightarrow> (Inl (Error err), w1)
      | (Inr b, w1) \<Rightarrow>
          (case Unmarshal E b of
             Inl err \<Rightarrow> (Inl (Error err), w1)
           | Inr bkp \<Rightarrow> (Inr bkp, w1)))"

definition create_and_start :: "env \<Rightarrow> opts \<Rightarrow> Backup \<Rightarrow> unit io" where
  \<comment> \<open>The end that \<open>restoreTar\<close> (lines 72-80) and \<open>restore\<close> (lines 94-102) share.\<close>
  "create_and_start E F bkp w =
     (case createContainer E bkp w of
        (Inl err, w1) \<Rightarrow> (Inl err, w1)
      | (Inr cid, w1) \<Rightarrow>
          if optStart F then startContainer E cid w1 else (Inr (), w1))"

definition restoreTar :: "env \<Rightarrow> opts \<Rightarrow> string \<Rightarrow> unit io" where
  \<comment> \<open>\<open>func restoreTar(filename string) error\<close>\<close>
  "restoreTar E F filename w =
     (case restoreTar_read E filename w of
        (Inl err, w1) \<Rightarrow> (Inl err, w1)
      | (Inr bkp, w1) \<Rightarrow> create_and_start E F bkp w1)"

definition restore :: "env \<Rightarrow> opts \<Rightarrow> string \<Rightarrow> unit io" where
  \<comment> \<open>\<open>func restore(filename string) error\<close>\<close>
  "restore E F filename w =
     (case restore_read E filename w of
        (Inl err, w1) \<Rightarrow> (Inl err, w1)
      | (Inr bkp, w1) \<Rightarrow> create_and_start E F bkp w1)"

definition restoreCmd :: "env \<Rightarrow> opts \<Rightarrow> string list \<Rightarrow> unit io" where
  \<comment> \<open>\<open>RunE\<close> of \<open>restoreCmd\<close>\<close>
  "restoreCmd E F args w =
     (if length args < 1 then (Inl (Error ''restore requires a .json or .tar backup''), w)
      else if HasSuffix (args ! 0) ''.json'' then restore E F (args ! 0) w
      else if HasSuffix (args ! 0) ''.tar'' then restoreTar E F (args ! 0) w
      else (Inl (Error ''unknown file type, please provide a .tar or .json file''), w))"

section \<open>How a call ends\<close>

fun is_Panic :: "failure + 'a \<Rightarrow> bool" where
  "is_Panic (Inl (Panic p)) = True"
| "is_Panic (Inl (Error e)) = False"
| "is_Panic (Inr x) = False"

fun is_Error :: "failure + 'a \<Rightarrow> bool" where
  "is_Error (Inl (Error e)) = True"
| "is_Error (Inl (Panic p)) = False"
| "is_Error (Inr x) = False"

section \<open>What the loops and the literals compute\<close>

text \<open>
  For the loop of \<open>restoreTar\<close>: the error of the first entry that does not read, and the
  bodies of the entries named \<open>container.json\<close>, in the order of the archive.
\<close>

fun first_error :: "tar_item list \<Rightarrow> string option" where
  "first_error [] = None"
| "first_error (Entry th d # rest) = first_error rest"
| "first_error (Truncated th err # rest) = Some err"
| "first_error (Corrupt err # rest) = Some err"

fun container_json_bodies :: "tar_item list \<Rightarrow> string list" where
  "container_json_bodies [] = []"
| "container_json_bodies (Entry th d # rest) =
     (if hdr_Name th = ''container.json'' then d # container_json_bodies rest
      else container_json_bodies rest)"
| "container_json_bodies (Truncated th err # rest) = container_json_bodies rest"
| "container_json_bodies (Corrupt err # rest) = container_json_bodies rest"

text \<open>
  The header \<open>backupTar\<close> builds for the payload \<open>b\<close>, from the world it starts in
  (\<open>0600\<close> is octal: 384), before the tar writer records it.
\<close>

definition backupTar_header :: "env \<Rightarrow> world \<Rightarrow> string \<Rightarrow> tar_Header" where
  "backupTar_header E w b =
     \<lparr>hdr_Name = ''container.json'', hdr_Size = int (length b),
      hdr_ModTime = time_Now E (clock_reads w),
      hdr_AccessTime = time_Now E (clock_reads w + 1),
      hdr_ChangeTime = time_Now E (clock_reads w + 2),
      hdr_Mode = 384\<rparr>"

text \<open>Lines 183-189 of \<open>backup\<close>: the argument vector of the launched command.\<close>

definition launch_argv :: "string \<Rightarrow> string \<Rightarrow> string list" where
  "launch_argv launch filename =
     Split (Replace (Replace launch ''%tag'' filename) ''%list'' (filename @ ''.backup.files'')) '' ''"

section \<open>The specification's wording, where the code differs\<close>

text \<open>
  The scan of the archive as the specification words it: the entries are read until the
  first one named \<open>container.json\<close>, whose body is the buffer; without such an entry the
  buffer is empty.
\<close>

fun first_container_json :: "tar_item list \<Rightarrow> string + string" where
  "first_container_json [] = Inr []"
| "first_container_json (Corrupt err # rest) = Inl err"
| "first_container_json (Truncated th err # rest) = Inl err"
| "first_container_json (Entry th d # rest) =
     (if hdr_Name th = ''container.json'' then Inr d else first_container_json rest)"

text \<open>
  Splitting on whitespace as the specification words it: the maximal runs of characters
  that are not white space (space, tab, line feed, vertical tab, form feed, carriage return).
\<close>

definition is_space :: "char \<Rightarrow> bool" where
  "is_space c = (c \<in> set [CHR '' '', CHR 0x09, CHR 0x0A, CHR 0x0B, CHR 0x0C, CHR 0x0D])"

fun words_from :: "string \<Rightarrow> string \<Rightarrow> string list" where
  "words_from cur [] = (if cur = [] then [] else [cur])"
| "words_from cur (c # cs) =
     (if is_space c then (if cur = [] then words_from [] cs else cur # words_from [] cs)
      else words_from (cur @ [c]) cs)"

definition split_on_whitespace :: "string \<Rightarrow> string list" where
  "split_on_whitespace s = words_from [] s"

section \<open>\<open>encoding/json\<close>: strings\<close>















definition and_then :: "string \<Rightarrow> (string \<times> string) option \<Rightarrow> (string \<times> string) option" where
  "and_then t r = map_option (\<lambda>(u, rest). (t @ u, rest)) r"





section \<open>\<open>encoding/json\<close>: the \<open>Backup\<close> record\<close>













section \<open>Example environments\<close>

text \<open>
  A container \<open>/web-1\<close> running \<open>nginx\<close>, a runtime that answers every call, a file system
  that never fails, a clock that ticks at every reading, and a codec that knows this one
  record (\<open>example_json\<close> stands for its JSON text). The closed instances of the theorems
  below are evaluated in it and in its variants.
\<close>

definition example_backup :: Backup where
  "example_backup =
     \<lparr>Name = ''/web-1'', Config = Some \<lparr>Image = ''nginx''\<rparr>, HostConfig = Some \<lparr>Mounts = []\<rparr>,
      NetworkSettings = None, Platform = ''''\<rparr>"

definition example_conf :: ContainerJSON where
  "example_conf =
     \<lparr>cj_ID = ''0123456789abcdef'', cj_Name = ''/web-1'', cj_Config = Some \<lparr>Image = ''nginx''\<rparr>,
      cj_HostConfig = Some \<lparr>Mounts = []\<rparr>, cj_NetworkSettings = None, cj_Platform = '''',
      cj_Mounts = []\<rparr>"

definition example_json :: string where
  "example_json = ''{ Name: /web-1, Config: { Image: nginx }, HostConfig: {}, NetworkSettings: null, Platform: }''"

definition example_env :: env where
  "example_env =
     \<lparr>MarshalIndent = (\<lambda>b. if b = example_backup then Inr example_json
                          else Inl ''json: unsupported value''),
      Unmarshal = (\<lambda>s. if s = example_json then Inr example_backup
                      else Inl ''unexpected end of JSON input''),
      sanitize_Path = (\<lambda>s. s),
      ContainerInspect = (\<lambda>i. if i = ''0123456789abcdef'' then Inr example_conf
                             else Inl ''No such container''),
      ImageList = Inr [],
      ContainerList = (\<lambda>all. Inr [\<lparr>cs_ID = ''0123456789abcdef''\<rparr>]),
      ContainerCreate = (\<lambda>c h n name. Inr ''0123456789abcdef''),
      ContainerStart = (\<lambda>i. None),
      exec_Run = (\<lambda>p args. None),
      tar_bytes = (\<lambda>items. []),
      time_Now = (\<lambda>k. 1700000000600000000 + k),
      io_fail = (\<lambda>k. None)\<rparr>"

definition example_opts :: opts where
  "example_opts = \<lparr>optLaunch = [], optTar = False, optAll = False, optStopped = False,
     optVerbose = False, optStart = False\<rparr>"

definition example_world :: world where
  "example_world = \<lparr>files = Map.empty, stdout = [], calls = [], io_ops = 0, clock_reads = 0\<rparr>"

text \<open>Variants: a runtime that reports an eleven-byte ID, one that cannot list the
  containers, one that lists a container it can no longer inspect, one with images, and a
  launched command that fails; a launch template; a world holding one archive.\<close>

definition short_id_env :: env where
  \<comment> \<open>The runtime reports the container under an eleven-byte ID.\<close>
  "short_id_env = example_env\<lparr>ContainerInspect := (\<lambda>i. Inr (example_conf\<lparr>cj_ID := ''0123456789a''\<rparr>))\<rparr>"

definition list_fails_env :: env where
  "list_fails_env = example_env\<lparr>ContainerList := (\<lambda>all. Inl ''Cannot connect to the Docker daemon'')\<rparr>"

definition two_containers_env :: env where
  "two_containers_env = example_env\<lparr>ContainerList :=
     (\<lambda>all. Inr [\<lparr>cs_ID = ''removed''\<rparr>, \<lparr>cs_ID = ''0123456789abcdef''\<rparr>])\<rparr>"

definition images_env :: env where
  "images_env = example_env\<lparr>ImageList := Inr
     [\<lparr>img_ID = ''app'', RepoTags = [''registry/web:1'', ''registry/web:2'']\<rparr>,
      \<lparr>img_ID = ''nginx'', RepoTags = []\<rparr>,
      \<lparr>img_ID = ''ngin'', RepoTags = [''web:stable'', ''nginx:1.25'', ''nginx:latest'']\<rparr>,
      \<lparr>img_ID = ''nginx'', RepoTags = [''nginx:mainline'']\<rparr>]\<rparr>"

definition exec_fails_env :: env where
  "exec_fails_env = example_env\<lparr>exec_Run := (\<lambda>p args. Some ''exit status 1'')\<rparr>"

definition launch_opts :: opts where
  "launch_opts = example_opts\<lparr>optLaunch := ''notify.sh %tag %list''\<rparr>"

definition example_header :: "string \<Rightarrow> nat \<Rightarrow> tar_Header" where
  "example_header name n =
     \<lparr>hdr_Name = name, hdr_Size = int n, hdr_ModTime = 1700000000000000000, hdr_AccessTime = 0,
      hdr_ChangeTime = 0, hdr_Mode = 384\<rparr>"

definition archive_world :: "tar_item list \<Rightarrow> world" where
  "archive_world items = example_world\<lparr>files := [''web.tar'' \<mapsto> TarArchive items]\<rparr>"




section \<open>Properties\<close>

subsection \<open>The restore entry point\<close>

lemma tar_not_json: "HasSuffix p ''.tar'' \<Longrightarrow> \<not> HasSuffix p ''.json''"
proof
  assume a: "HasSuffix p ''.tar''" and b: "HasSuffix p ''.json''"
  from a obtain u where "p = u @ ''.tar''" by (auto simp: HasSuffix_def suffix_def)
  then have "last p = CHR ''r''" by simp
  moreover from b obtain v where "p = v @ ''.json''" by (auto simp: HasSuffix_def suffix_def)
  then have "last p = CHR ''n''" by simp
  ultimately show False by simp
qed

text \<open>
  C6. \<open>restoreCmd\<close> hands a path ending in \<open>.json\<close> to \<open>restore\<close> and a path ending in
  \<open>.tar\<close> to \<open>restoreTar\<close>; for every other path it returns the unknown-file-type error
  and leaves the world as it was: no file operation has been counted, so no read was tried.
  Without a path it asks for one.
\<close>

theorem restoreCmd_dispatch:
  "restoreCmd E F [] w = (Inl (Error ''restore requires a .json or .tar backup''), w) \<and>
   (HasSuffix path ''.json'' \<longrightarrow> restoreCmd E F (path # args) w = restore E F path w) \<and>
   (HasSuffix path ''.tar'' \<longrightarrow> restoreCmd E F (path # args) w = restoreTar E F path w) \<and>
   (\<not> HasSuffix path ''.json'' \<and> \<not> HasSuffix path ''.tar'' \<longrightarrow>
      restoreCmd E F (path # args) w =
        (Inl (Error ''unknown file type, please provide a .tar or .json file''), w))"
  using tar_not_json [of path] by (simp add: restoreCmd_def)

theorem restoreCmd_dispatch_witness:
  "restoreCmd example_env example_opts [''web.backup.json''] example_world =
     (Inl (Error ''open web.backup.json: no such file or directory''), example_world\<lparr>io_ops := 1\<rparr>) \<and>
   restoreCmd example_env example_opts [''web.tar''] example_world =
     (Inl (Error ''open web.tar: no such file or directory''), example_world\<lparr>io_ops := 1\<rparr>) \<and>
   restoreCmd example_env example_opts [''web.tar.gz''] example_world =
     (Inl (Error ''unknown file type, please provide a .tar or .json file''), example_world)"
  using restoreCmd_dispatch [where path = "''web.backup.json''" and E = example_env
      and F = example_opts and args = "[]" and w = example_world]
    restoreCmd_dispatch [where path = "''web.tar''" and E = example_env
      and F = example_opts and args = "[]" and w = example_world]
    restoreCmd_dispatch [where path = "''web.tar.gz''" and E = example_env
      and F = example_opts and args = "[]" and w = example_world]
  by (simp add: HasSuffix_def suffix_to_prefix restore_def restore_read_def ReadFile_def
      restoreTar_def restoreTar_read_def os_Open_def io_step_def example_env_def
      example_world_def no_such_file_def)

subsection \<open>The artifact's file name\<close>

lemma Replace_char:
  "Replace s [a] [b] = map (\<lambda>c. if c = a then b else c) s"
  by (induction s) auto

text \<open>
  C7. The stem is \<open>sanitize.Path\<close> of \<open><image>-<ID>\<close> with every \<open>/\<close> turned into \<open>_\<close>,
  whatever \<open>sanitize.Path\<close> returns; neither the stem nor any artifact name made from it
  contains a \<open>/\<close>.
\<close>

theorem backup_filename_no_slash:
  "backup_filename E img ID =
     map (\<lambda>c. if c = CHR ''/'' then CHR ''_'' else c) (sanitize_Path E (img @ ''-'' @ ID)) \<and>
   CHR ''/'' \<notin> set (backup_filename E img ID) \<and>
   CHR ''/'' \<notin> set (backup_filename E img ID @ ''.tar'') \<and>
   CHR ''/'' \<notin> set (backup_filename E img ID @ ''.backup.json'') \<and>
   CHR ''/'' \<notin> set (backup_filename E img ID @ ''.backup.files'')"
  by (auto simp: backup_filename_def Replace_char)

subsection \<open>Slices out of range\<close>

lemma backupTar_no_panic: "\<not> is_Panic (fst (backupTar E filename b w))"
  by (simp add: backupTar_def Let_def split: sum.splits prod.splits)

lemma backup_launch_no_panic: "\<not> is_Panic (fst (backup_launch E l filename w))"
  by (simp add: backup_launch_def Let_def split: option.splits)

lemma backup_json_no_panic: "\<not> is_Panic (fst (backup_json E F filename b w))"
  by (simp add: backup_json_def Let_def backup_launch_no_panic split: sum.splits prod.splits)

text \<open>
  C10. \<open>backup\<close> slices \<open>conf.Name[1:]\<close> and \<open>conf.ID[:12]\<close>, and \<open>startContainer\<close> slices
  \<open>id[:12]\<close>, with no check of the length. When the inspected name is empty or the ID is
  shorter than twelve bytes, \<open>backup\<close> panics before it has done anything; with a non-empty
  name, an ID of twelve bytes or more and a \<open>Config\<close> it never panics. \<open>startContainer\<close>
  panics with a slice out of range on an ID shorter than twelve bytes, and on no other.
\<close>

theorem slices_panic:
  "(ContainerInspect E ID = Inr conf \<and> (cj_Name conf = [] \<or> length (cj_ID conf) < 12) \<longrightarrow>
      is_Panic (fst (backup E F ID w)) \<and> snd (backup E F ID w) = w) \<and>
   (ContainerInspect E ID = Inr conf \<and> cj_Name conf \<noteq> [] \<and> 12 \<le> length (cj_ID conf) \<and>
      cj_Config conf \<noteq> None \<longrightarrow> \<not> is_Panic (fst (backup E F ID w))) \<and>
   (length cid < 12 \<longrightarrow> startContainer E cid w = (Inl (Panic SliceBoundsOutOfRange), w)) \<and>
   (12 \<le> length cid \<longrightarrow> \<not> is_Panic (fst (startContainer E cid w)))"
proof (intro conjI impI)
  assume a: "ContainerInspect E ID = Inr conf \<and> (cj_Name conf = [] \<or> length (cj_ID conf) < 12)"
  then show "is_Panic (fst (backup E F ID w))"
    by (auto simp: backup_def split: option.splits)
  from a show "snd (backup E F ID w) = w"
    by (auto simp: backup_def split: option.splits)
next
  assume a: "ContainerInspect E ID = Inr conf \<and> cj_Name conf \<noteq> [] \<and> 12 \<le> length (cj_ID conf) \<and>
      cj_Config conf \<noteq> None"
  then obtain config where c: "cj_Config conf = Some config" by auto
  from a have n: "\<not> length (cj_Name conf) < 1" "\<not> length (cj_ID conf) < 12" by auto
  show "\<not> is_Panic (fst (backup E F ID w))"
    unfolding backup_def using a c n
    by (simp add: Let_def backupTar_no_panic backup_json_no_panic split: sum.splits)
next
  assume "length cid < 12"
  then show "startContainer E cid w = (Inl (Panic SliceBoundsOutOfRange), w)"
    by (simp add: startContainer_def)
next
  assume "12 \<le> length cid"
  then show "\<not> is_Panic (fst (startContainer E cid w))"
    by (simp add: startContainer_def Let_def split: option.splits)
qed

theorem slices_panic_witness:
  "is_Panic (fst (backup short_id_env example_opts ''web-1'' example_world)) \<and>
   snd (backup short_id_env example_opts ''web-1'' example_world) = example_world \<and>
   \<not> is_Panic (fst (backup example_env example_opts ''0123456789abcdef'' example_world)) \<and>
   startContainer example_env ''0123456789a'' example_world =
     (Inl (Panic SliceBoundsOutOfRange), example_world) \<and>
   \<not> is_Panic (fst (startContainer example_env ''0123456789abcdef'' example_world))"
  using slices_panic [where E = short_id_env and ID = "''web-1''"
      and conf = "example_conf\<lparr>cj_ID := ''0123456789a''\<rparr>" and F = example_opts
      and w = example_world and cid = "''0123456789a''"]
    slices_panic [where E = example_env and ID = "''0123456789abcdef''" and conf = example_conf
      and F = example_opts and w = example_world and cid = "''0123456789abcdef''"]
  by (simp add: short_id_env_def example_env_def example_conf_def startContainer_def)

subsection \<open>Creating the container\<close>

lemma Split_not_Nil: "Split s sep \<noteq> []"
  by (induction s sep rule: Split.induct) (auto split: list.splits)

lemma calls_print: "calls (print s w) = calls w"
  by (simp add: print_def)

lemma calls_record_call: "calls (record_call c w) = calls w @ [c]"
  by (simp add: record_call_def)

lemma calls_foldl_print: "calls (foldl (\<lambda>w m. print (f m) w) v xs) = calls v"
  by (induction xs arbitrary: v) (simp_all add: calls_print)

lemma createContainer_calls:
  "calls (snd (createContainer E bkp w)) =
     calls w @ [Call_ContainerCreate (Config bkp) (HostConfig bkp)
        (case NetworkSettings bkp of None \<Rightarrow> None
         | Some ns \<Rightarrow>
             Some \<lparr>EndpointsConfig = fold (\<lambda>(k, v) ep. AList.update k v ep) (Networks ns) []\<rparr>)
        (last (Split (Name bkp) ''/''))]"
  by (simp add: createContainer_def Let_def calls_print calls_record_call calls_foldl_print
        last_conv_nth Split_not_Nil split: sum.splits option.splits)

text \<open>
  C5. Restoring a record without \<open>NetworkSettings\<close>: \<open>createContainer\<close> makes exactly one call
  to the runtime, \<open>ContainerCreate\<close> with the record's \<open>Config\<close> and \<open>HostConfig\<close>, no network
  configuration, and the last \<open>/\<close>-separated piece of \<open>Name\<close>; nothing fails before that
  call, and when the runtime creates the container and can inspect it (and \<open>HostConfig\<close> is
  present) the new ID is returned. For the record \<open>/web-1\<close> of \<open>nginx\<close> the call names
  \<open>web-1\<close>.
\<close>

theorem createContainer_without_network:
  "(NetworkSettings bkp = None \<longrightarrow>
      calls (snd (createContainer E bkp w)) =
        calls w @ [Call_ContainerCreate (Config bkp) (HostConfig bkp) None
                     (last (Split (Name bkp) ''/''))] \<and>
      (\<forall>cid hc conf.
         ContainerCreate E (Config bkp) (HostConfig bkp) None (last (Split (Name bkp) ''/'')) = Inr cid \<and>
         HostConfig bkp = Some hc \<and> ContainerInspect E cid = Inr conf \<longrightarrow>
           fst (createContainer E bkp w) = Inr cid)) \<and>
   calls (snd (createContainer E
       \<lparr>Name = ''/web-1'', Config = Some \<lparr>Image = ''nginx''\<rparr>, HostConfig = Some \<lparr>Mounts = []\<rparr>,
        NetworkSettings = None, Platform = p\<rparr> w)) =
     calls w @ [Call_ContainerCreate (Some \<lparr>Image = ''nginx''\<rparr>) (Some \<lparr>Mounts = []\<rparr>) None ''web-1'']"
proof (intro conjI impI allI)
  assume n: "NetworkSettings bkp = None"
  show "calls (snd (createContainer E bkp w)) =
        calls w @ [Call_ContainerCreate (Config bkp) (HostConfig bkp) None
                     (last (Split (Name bkp) ''/''))]"
    using n by (simp add: createContainer_calls)
  fix cid hc conf
  assume "ContainerCreate E (Config bkp) (HostConfig bkp) None (last (Split (Name bkp) ''/'')) = Inr cid \<and>
         HostConfig bkp = Some hc \<and> ContainerInspect E cid = Inr conf"
  then have "ContainerCreate E (Config bkp) (HostConfig bkp) None
        (Split (Name bkp) ''/'' ! (length (Split (Name bkp) ''/'') - 1)) = Inr cid"
    and "HostConfig bkp = Some hc" and "ContainerInspect E cid = Inr conf"
    by (auto simp: last_conv_nth Split_not_Nil)
  with n show "fst (createContainer E bkp w) = Inr cid"
    by (simp add: createContainer_def Let_def)
next
  show "calls (snd (createContainer E
       \<lparr>Name = ''/web-1'', Config = Some \<lparr>Image = ''nginx''\<rparr>, HostConfig = Some \<lparr>Mounts = []\<rparr>,
        NetworkSettings = None, Platform = p\<rparr> w)) =
     calls w @ [Call_ContainerCreate (Some \<lparr>Image = ''nginx''\<rparr>) (Some \<lparr>Mounts = []\<rparr>) None ''web-1'']"
    by (simp add: createContainer_calls)
qed

theorem createContainer_without_network_witness:
  "calls (snd (createContainer example_env example_backup example_world)) =
     [Call_ContainerCreate (Some \<lparr>Image = ''nginx''\<rparr>) (Some \<lparr>Mounts = []\<rparr>) None ''web-1''] \<and>
   fst (createContainer example_env example_backup example_world) = Inr ''0123456789abcdef''"
  using createContainer_without_network [where bkp = example_backup and E = example_env
      and w = example_world and p = "''''"]
  by (simp add: example_backup_def example_env_def example_world_def example_conf_def)

subsection \<open>Resolving the image reference\<close>

lemma first_matching_tag_find:
  "first_matching_tag tags imageName = find (\<lambda>tag. Contains tag imageName) tags"
  by (induction tags) simp_all

lemma getFullImageName_loop_skip:
  "\<forall>i \<in> set skipped. \<not> Contains imageName (img_ID i) \<or> RepoTags i = [] \<Longrightarrow>
   getFullImageName_loop (skipped @ images) imageName = getFullImageName_loop images imageName"
  by (induction skipped) auto

text \<open>
  C2. \<open>getFullImageName\<close> returns a reference that contains \<open>:\<close> as it is. Otherwise it asks
  for the image list; the entry it settles on is the first one whose ID occurs in the
  reference and that has a tag (entries before it either do not match or have no tag): the
  result is the first tag of that entry that contains the reference, or the entry's first
  tag when none does. When no entry matches (or every matching entry has no tag) the
  reference comes back unchanged. A failure of the image list is returned.
\<close>

theorem getFullImageName_resolution:
  "(Contains imageName '':'' \<longrightarrow> getFullImageName E imageName = Inr imageName) \<and>
   (\<not> Contains imageName '':'' \<and> ImageList E = Inr (skipped @ img # images) \<and>
    (\<forall>i \<in> set skipped. \<not> Contains imageName (img_ID i) \<or> RepoTags i = []) \<and>
    Contains imageName (img_ID img) \<and> RepoTags img \<noteq> [] \<longrightarrow>
      getFullImageName E imageName =
        Inr (case find (\<lambda>tag. Contains tag imageName) (RepoTags img) of
               Some tag \<Rightarrow> tag
             | None \<Rightarrow> hd (RepoTags img))) \<and>
   (\<not> Contains imageName '':'' \<and> ImageList E = Inr skipped \<and>
    (\<forall>i \<in> set skipped. \<not> Contains imageName (img_ID i) \<or> RepoTags i = []) \<longrightarrow>
      getFullImageName E imageName = Inr imageName) \<and>
   (\<not> Contains imageName '':'' \<and> ImageList E = Inl err \<longrightarrow>
      getFullImageName E imageName = Inl err)"
proof (intro conjI impI)
  assume "Contains imageName '':''"
  then show "getFullImageName E imageName = Inr imageName"
    by (simp add: getFullImageName_def)
next
  assume a: "\<not> Contains imageName '':'' \<and> ImageList E = Inr (skipped @ img # images) \<and>
    (\<forall>i \<in> set skipped. \<not> Contains imageName (img_ID i) \<or> RepoTags i = []) \<and>
    Contains imageName (img_ID img) \<and> RepoTags img \<noteq> []"
  then have "getFullImageName_loop (skipped @ img # images) imageName =
      getFullImageName_loop (img # images) imageName"
    by (intro getFullImageName_loop_skip) blast
  moreover have "getFullImageName_loop (img # images) imageName =
      (case find (\<lambda>tag. Contains tag imageName) (RepoTags img) of
         Some tag \<Rightarrow> tag | None \<Rightarrow> hd (RepoTags img))"
    using a by (auto simp: first_matching_tag_find hd_conv_nth split: option.splits)
  ultimately show "getFullImageName E imageName =
        Inr (case find (\<lambda>tag. Contains tag imageName) (RepoTags img) of
               Some tag \<Rightarrow> tag
             | None \<Rightarrow> hd (RepoTags img))"
    using a by (simp add: getFullImageName_def)
next
  assume a: "\<not> Contains imageName '':'' \<and> ImageList E = Inr skipped \<and>
    (\<forall>i \<in> set skipped. \<not> Contains imageName (img_ID i) \<or> RepoTags i = [])"
  then have "getFullImageName_loop (skipped @ []) imageName = getFullImageName_loop [] imageName"
    by (intro getFullImageName_loop_skip) blast
  then show "getFullImageName E imageName = Inr imageName"
    using a by (simp add: getFullImageName_def)
next
  assume "\<not> Contains imageName '':'' \<and> ImageList E = Inl err"
  then show "getFullImageName E imageName = Inl err"
    by (simp add: getFullImageName_def)
qed

theorem getFullImageName_resolution_witness:
  "getFullImageName example_env ''nginx:1.25'' = Inr ''nginx:1.25'' \<and>
   getFullImageName images_env ''nginx'' = Inr ''nginx:1.25'' \<and>
   getFullImageName images_env ''myapp'' = Inr ''registry/web:1'' \<and>
   getFullImageName images_env ''postgres'' = Inr ''postgres'' \<and>
   getFullImageName (example_env\<lparr>ImageList := Inl ''Cannot connect to the Docker daemon''\<rparr>) ''nginx''
     = Inl ''Cannot connect to the Docker daemon''"
  using getFullImageName_resolution [where imageName = "''nginx:1.25''" and E = example_env]
    getFullImageName_resolution [where imageName = "''nginx''" and E = images_env
      and skipped = "[\<lparr>img_ID = ''app'', RepoTags = [''registry/web:1'', ''registry/web:2'']\<rparr>, \<lparr>img_ID = ''nginx'', RepoTags = []\<rparr>]"
      and img = "\<lparr>img_ID = ''ngin'', RepoTags = [''web:stable'', ''nginx:1.25'', ''nginx:latest'']\<rparr>"
      and images = "[\<lparr>img_ID = ''nginx'', RepoTags = [''nginx:mainline'']\<rparr>]"]
    getFullImageName_resolution [where imageName = "''myapp''" and E = images_env
      and skipped = "[]"
      and img = "\<lparr>img_ID = ''app'', RepoTags = [''registry/web:1'', ''registry/web:2'']\<rparr>"
      and images = "[\<lparr>img_ID = ''nginx'', RepoTags = []\<rparr>,
        \<lparr>img_ID = ''ngin'', RepoTags = [''web:stable'', ''nginx:1.25'', ''nginx:latest'']\<rparr>,
        \<lparr>img_ID = ''nginx'', RepoTags = [''nginx:mainline'']\<rparr>]"]
    getFullImageName_resolution [where imageName = "''postgres''" and E = images_env
      and skipped = "[\<lparr>img_ID = ''app'', RepoTags = [''registry/web:1'', ''registry/web:2'']\<rparr>,
      \<lparr>img_ID = ''nginx'', RepoTags = []\<rparr>,
      \<lparr>img_ID = ''ngin'', RepoTags = [''web:stable'', ''nginx:1.25'', ''nginx:latest'']\<rparr>,
      \<lparr>img_ID = ''nginx'', RepoTags = [''nginx:mainline'']\<rparr>]"]
    getFullImageName_resolution [where imageName = "''nginx''"
      and E = "example_env\<lparr>ImageList := Inl ''Cannot connect to the Docker daemon''\<rparr>"
      and err = "''Cannot connect to the Docker daemon''"]
  by (simp add: images_env_def Contains_def sublist_Cons_right example_env_def)

subsection \<open>Backing up every container\<close>

lemma backupAll_loop_append:
  "backupAll_loop E F pre w = (Inr (), w1) \<Longrightarrow>
   backupAll_loop E F (pre @ rest) w = backupAll_loop E F rest w1"
  by (induction pre arbitrary: w) (auto split: prod.splits sum.splits)

text \<open>
  C9, as the code has it. A failure of the container listing is not returned: \<open>backupAll\<close>
  panics with it, the world untouched. The first container whose \<open>backup\<close> fails ends the
  batch: \<open>backupAll\<close> returns that failure in the world that backup left, whatever containers
  follow; when every backup succeeds, so does \<open>backupAll\<close>.
\<close>

theorem backupAll_first_failure:
  "(ContainerList E (optStopped F) = Inl err \<longrightarrow>
      backupAll E F w = (Inl (Panic (PanicValue err)), w)) \<and>
   (ContainerList E (optStopped F) = Inr (pre @ c # rest) \<and>
    backupAll_loop E F pre w = (Inr (), w1) \<and> backup E F (cs_ID c) w1 = (Inl f, w2) \<longrightarrow>
      backupAll E F w = (Inl f, w2)) \<and>
   (ContainerList E (optStopped F) = Inr all \<and> backupAll_loop E F all w = (Inr (), w1) \<longrightarrow>
      backupAll E F w = (Inr (), w1))"
  by (auto simp: backupAll_def backupAll_loop_append)

text \<open>
  C9 as stated fails: with a runtime that cannot list the containers, \<open>backupAll\<close> does not
  return an error to its caller, it panics.
\<close>

theorem backupAll_list_failure_panics:
  "ContainerList list_fails_env (optStopped example_opts) = Inl ''Cannot connect to the Docker daemon'' \<and>
   backupAll list_fails_env example_opts example_world =
     (Inl (Panic (PanicValue ''Cannot connect to the Docker daemon'')), example_world) \<and>
   \<not> is_Error (fst (backupAll list_fails_env example_opts example_world))"
  by (simp add: backupAll_def list_fails_env_def example_env_def)

theorem backupAll_first_failure_witness:
  "backupAll list_fails_env example_opts example_world =
     (Inl (Panic (PanicValue ''Cannot connect to the Docker daemon'')), example_world) \<and>
   backupAll two_containers_env example_opts example_world =
     (Inl (Error ''No such container''), example_world)"
  using backupAll_first_failure [where E = list_fails_env and F = example_opts
      and err = "''Cannot connect to the Docker daemon''" and w = example_world]
    backupAll_first_failure [where E = two_containers_env and F = example_opts and pre = "[]"
      and c = "\<lparr>cs_ID = ''removed''\<rparr>" and rest = "[\<lparr>cs_ID = ''0123456789abcdef''\<rparr>]"
      and w = example_world and ?w1.0 = example_world and ?w2.0 = example_world
      and f = "Error ''No such container''"]
  by (simp add: list_fails_env_def two_containers_env_def example_env_def backup_def)

subsection \<open>Reading the tar artifact\<close>

lemma restoreTar_loop_eq:
  "restoreTar_loop items b =
     (case first_error items of
        Some err \<Rightarrow> Inl err
      | None \<Rightarrow> Inr (last (b # container_json_bodies items)))"
  by (induction items b rule: restoreTar_loop.induct) (auto split: option.splits)

text \<open>
  C3, as the code has it. The loop of \<open>restoreTar\<close> has no \<open>break\<close>: it reads the archive to
  its end. An entry that does not read ends the restore with its error, wherever it stands.
  Otherwise the buffer is the body of the last entry named \<open>container.json\<close> (each such entry
  replaces the buffer, every other entry is ignored), or the empty buffer when there is none,
  and the restore goes on with what \<open>json.Unmarshal\<close> makes of the buffer; when there is no
  such entry and \<open>json.Unmarshal\<close> rejects the empty buffer, the restore fails with that
  error.
\<close>

theorem restoreTar_scans_whole_archive:
  "restoreTar_loop items b =
     (case first_error items of
        Some err \<Rightarrow> Inl err
      | None \<Rightarrow> Inr (last (b # container_json_bodies items))) \<and>
   (os_Open E filename w = (Inr tarfile, w1) \<and> first_error (tar_items tarfile) = Some err \<longrightarrow>
      restoreTar E F filename w = (Inl (Error err), w1)) \<and>
   (os_Open E filename w = (Inr tarfile, w1) \<and> first_error (tar_items tarfile) = None \<longrightarrow>
      restoreTar E F filename w =
        (case Unmarshal E (last ([] # container_json_bodies (tar_items tarfile))) of
           Inl err \<Rightarrow> (Inl (Error err), w1)
         | Inr bkp \<Rightarrow> create_and_start E F bkp w1)) \<and>
   (os_Open E filename w = (Inr tarfile, w1) \<and> first_error (tar_items tarfile) = None \<and>
    container_json_bodies (tar_items tarfile) = [] \<and> Unmarshal E [] = Inl err \<longrightarrow>
      restoreTar E F filename w = (Inl (Error err), w1))"
  by (auto simp: restoreTar_loop_eq restoreTar_def restoreTar_read_def split: sum.splits)

text \<open>
  C3 as stated fails on an archive with two entries named \<open>container.json\<close>: the code
  decodes the second, the scan that stops at the first one found would decode the first. It
  fails too when a damaged entry follows \<open>container.json\<close>: the code returns the error.
\<close>

theorem restoreTar_last_container_json:
  "restoreTar_loop [Entry (example_header ''container.json'' 5) ''first'',
                    Entry (example_header ''container.json'' 6) ''second''] [] = Inr ''second'' \<and>
   first_container_json [Entry (example_header ''container.json'' 5) ''first'',
                    Entry (example_header ''container.json'' 6) ''second''] = Inr ''first'' \<and>
   restoreTar_loop [Entry (example_header ''container.json'' 5) ''first'', Corrupt ''unexpected EOF''] []
     = Inl ''unexpected EOF'' \<and>
   first_container_json [Entry (example_header ''container.json'' 5) ''first'', Corrupt ''unexpected EOF'']
     = Inr ''first''"
  by (simp add: example_header_def)

theorem restoreTar_scans_whole_archive_witness:
  "restoreTar_loop [Entry (example_header ''container.json'' 5) ''first'',
                    Entry (example_header ''notes.txt'' 2) ''hi'',
                    Entry (example_header ''container.json'' 6) ''second''] [] = Inr ''second'' \<and>
   restoreTar example_env example_opts ''web.tar''
       (archive_world [Entry (example_header ''container.json'' 5) ''first'', Corrupt ''unexpected EOF''])
     = (Inl (Error ''unexpected EOF''),
        archive_world [Entry (example_header ''container.json'' 5) ''first'', Corrupt ''unexpected EOF'']
          \<lparr>io_ops := 1\<rparr>) \<and>
   restoreTar example_env example_opts ''web.tar''
       (archive_world [Entry (example_header ''container.json'' 5) ''first'',
                       Entry (example_header ''container.json'' (length example_json)) example_json])
     = create_and_start example_env example_opts example_backup
        (archive_world [Entry (example_header ''container.json'' 5) ''first'',
                       Entry (example_header ''container.json'' (length example_json)) example_json]
          \<lparr>io_ops := 1\<rparr>) \<and>
   restoreTar example_env example_opts ''web.tar''
       (archive_world [Entry (example_header ''notes.txt'' 2) ''hi''])
     = (Inl (Error ''unexpected end of JSON input''),
        archive_world [Entry (example_header ''notes.txt'' 2) ''hi'']\<lparr>io_ops := 1\<rparr>)"
  using restoreTar_scans_whole_archive [where items = "[Entry (example_header ''container.json'' 5) ''first'',
                    Entry (example_header ''notes.txt'' 2) ''hi'',
                    Entry (example_header ''container.json'' 6) ''second'']" and b = "[]"
      and E = example_env and F = example_opts and filename = "''web.tar''"
      and w = "archive_world [Entry (example_header ''container.json'' 5) ''first'', Corrupt ''unexpected EOF'']"
      and tarfile = "TarArchive [Entry (example_header ''container.json'' 5) ''first'', Corrupt ''unexpected EOF'']"
      and ?w1.0 = "archive_world [Entry (example_header ''container.json'' 5) ''first'', Corrupt ''unexpected EOF'']
          \<lparr>io_ops := 1\<rparr>" and err = "''unexpected EOF''"]
    restoreTar_scans_whole_archive [where items = "[]" and b = "[]"
      and E = example_env and F = example_opts and filename = "''web.tar''"
      and w = "archive_world [Entry (example_header ''container.json'' 5) ''first'',
                       Entry (example_header ''container.json'' (length example_json)) example_json]"
      and tarfile = "TarArchive [Entry (example_header ''container.json'' 5) ''first'',
                       Entry (example_header ''container.json'' (length example_json)) example_json]"
      and ?w1.0 = "archive_world [Entry (example_header ''container.json'' 5) ''first'',
                       Entry (example_header ''container.json'' (length example_json)) example_json]
          \<lparr>io_ops := 1\<rparr>"]
    restoreTar_scans_whole_archive [where items = "[]" and b = "[]"
      and E = example_env and F = example_opts and filename = "''web.tar''"
      and w = "archive_world [Entry (example_header ''notes.txt'' 2) ''hi'']"
      and tarfile = "TarArchive [Entry (example_header ''notes.txt'' 2) ''hi'']"
      and ?w1.0 = "archive_world [Entry (example_header ''notes.txt'' 2) ''hi'']\<lparr>io_ops := 1\<rparr>"
      and err = "''unexpected end of JSON input''"]
  by (simp add: example_header_def archive_world_def example_world_def os_Open_def io_step_def
      example_env_def tar_items_def example_json_def)

subsection \<open>Writing the tar artifact\<close>

lemma no_io_failure:
  "\<forall>i<n. io_fail E (io_ops w + i) = None \<Longrightarrow> i < n \<Longrightarrow> io_fail E (io_ops w + i) = None"
  by simp

lemma backupTar_ok:
  assumes m: "MarshalIndent E bkp = Inr b"
    and io: "\<forall>i<4. io_fail E (io_ops w + i) = None"
  shows "backupTar E filename bkp w =
     (Inr (),
      w\<lparr>files := (files w)(filename @ ''.tar'' \<mapsto> TarArchive [Entry (written_header (backupTar_header E w b)) b]),
        io_ops := io_ops w + 4,
        clock_reads := clock_reads w + 3,
        stdout := stdout w @ [Println [''Created backup:'', filename @ ''.tar'']]\<rparr>)"
proof -
  have i0: "io_fail E (io_ops w) = None"
    and i1: "io_fail E (Suc (io_ops w)) = None"
    and i2: "io_fail E (Suc (Suc (io_ops w))) = None"
    and i3: "io_fail E (Suc (Suc (Suc (io_ops w)))) = None"
    using no_io_failure [OF io, of 0] no_io_failure [OF io, of 1]
      no_io_failure [OF io, of 2] no_io_failure [OF io, of 3]
    by (simp_all add: numeral_eq_Suc)
  show ?thesis
    by (simp add: backupTar_def m os_Create_def io_step_def i0 i1 i2 i3 Now_def
        tar_WriteHeader_def tar_items_def tar_Write_def tar_Close_def print_def
        backupTar_header_def written_header_def)
qed

lemma backup_json_written:
  assumes m: "MarshalIndent E bkp = Inr b"
    and io: "\<forall>i<3. io_fail E (io_ops w + i) = None"
  shows "backup_json E F filename bkp w =
     (let w5 = w\<lparr>files := (files w)(filename @ ''.backup.json'' \<mapsto> Bytes b,
                      filename @ ''.backup.files'' \<mapsto> Bytes (filename @ ''.backup.json'' @ newline)),
                 io_ops := io_ops w + 3,
                 stdout := stdout w @ [Println [''Created backup:'', filename @ ''.backup.json'']]\<rparr>
      in if optLaunch F \<noteq> [] then backup_launch E (optLaunch F) filename w5 else (Inr (), w5))"
proof -
  have i0: "io_fail E (io_ops w) = None"
    and i1: "io_fail E (Suc (io_ops w)) = None"
    and i2: "io_fail E (Suc (Suc (io_ops w))) = None"
    using no_io_failure [OF io, of 0] no_io_failure [OF io, of 1] no_io_failure [OF io, of 2]
    by (simp_all add: numeral_eq_Suc)
  show ?thesis
    by (auto simp: backup_json_def m WriteFile_def os_Create_def WriteString_def io_step_def
        i0 i1 i2 print_def file_bytes_def Let_def
        intro!: arg_cong [where f = "backup_launch E (optLaunch F) filename"])
qed

lemma backup_launch_eq:
  "backup_launch E launch filename w =
     (case exec_Run E (hd (launch_argv launch filename)) (tl (launch_argv launch filename)) of
        Some err \<Rightarrow> Inl (Error err) | None \<Rightarrow> Inr (),
      w\<lparr>stdout := stdout w @ [Println [''Launching external command and waiting for it to finish:''],
             Println [Replace (Replace launch ''%tag'' filename) ''%list'' (filename @ ''.backup.files'')]],
        calls := calls w @ [Call_Exec (hd (launch_argv launch filename)) (tl (launch_argv launch filename))]\<rparr>)"
  by (simp add: backup_launch_def launch_argv_def Let_def print_def record_call_def split: option.splits)

text \<open>
  C4, as the code has it. When the record encodes to \<open>b\<close> and the four file operations of
  \<open>backupTar\<close> succeed (create, header, body, close), \<open>backupTar\<close> succeeds and \<open><stem>.tar\<close>
  is an archive of exactly one entry: its name is \<open>container.json\<close>, its mode \<open>0600\<close> (384),
  its size the length of \<open>b\<close>, its body \<open>b\<close>, and its modification time the reading of the
  clock that \<open>backupTar\<close> takes first while it builds the header, rounded to the second. No
  other file changes.
\<close>

theorem backupTar_artifact:
  "MarshalIndent E bkp = Inr b \<and> (\<forall>i<4. io_fail E (io_ops w + i) = None) \<longrightarrow>
     fst (backupTar E filename bkp w) = Inr () \<and>
     (\<exists>th. files (snd (backupTar E filename bkp w)) (filename @ ''.tar'') =
             Some (TarArchive [Entry th b]) \<and>
           hdr_Name th = ''container.json'' \<and>
           hdr_Mode th = 384 \<and>
           hdr_Size th = int (length b) \<and>
           hdr_ModTime th = Round_Second (time_Now E (clock_reads w))) \<and>
     (\<forall>p. p \<noteq> filename @ ''.tar'' \<longrightarrow>
        files (snd (backupTar E filename bkp w)) p = files w p)"
proof
  assume a: "MarshalIndent E bkp = Inr b \<and> (\<forall>i<4. io_fail E (io_ops w + i) = None)"
  then have m: "MarshalIndent E bkp = Inr b" and io: "\<forall>i<4. io_fail E (io_ops w + i) = None"
    by simp_all
  show "fst (backupTar E filename bkp w) = Inr () \<and>
     (\<exists>th. files (snd (backupTar E filename bkp w)) (filename @ ''.tar'') =
             Some (TarArchive [Entry th b]) \<and>
           hdr_Name th = ''container.json'' \<and>
           hdr_Mode th = 384 \<and>
           hdr_Size th = int (length b) \<and>
           hdr_ModTime th = Round_Second (time_Now E (clock_reads w))) \<and>
     (\<forall>p. p \<noteq> filename @ ''.tar'' \<longrightarrow>
        files (snd (backupTar E filename bkp w)) p = files w p)"
    by (simp add: backupTar_ok [OF m io] backupTar_header_def written_header_def)
qed

theorem backupTar_artifact_witness:
  "fst (backupTar example_env ''nginx-0123456789abcdef'' example_backup example_world) = Inr () \<and>
   (\<exists>th. files (snd (backupTar example_env ''nginx-0123456789abcdef'' example_backup example_world))
           ''nginx-0123456789abcdef.tar'' = Some (TarArchive [Entry th example_json]) \<and>
         hdr_Name th = ''container.json'' \<and>
         hdr_Mode th = 384 \<and>
         hdr_Size th = int (length example_json) \<and>
         hdr_ModTime th = 1700000001000000000)"
  using backupTar_artifact [where E = example_env and bkp = example_backup and b = example_json
      and w = example_world and filename = "''nginx-0123456789abcdef''"]
  by (simp add: example_env_def example_world_def Round_Second_def)

text \<open>
  C4 as stated fails: the access and change times of the entry are not the time of creation.
  The clock reads 1700000000.6 s and later; the header is built with these readings, and the
  entry in the artifact has the modification time 1700000001 s and the zero time as its
  access and change times.
\<close>

theorem backupTar_access_and_change_time_not_recorded:
  "time_Now example_env 0 = 1700000000600000000 \<and>
   time_Now example_env 1 = 1700000000600000001 \<and>
   time_Now example_env 2 = 1700000000600000002 \<and>
   files (snd (backupTar example_env ''nginx-0123456789abcdef'' example_backup example_world))
       ''nginx-0123456789abcdef.tar'' =
     Some (TarArchive
       [Entry \<lparr>hdr_Name = ''container.json'', hdr_Size = int (length example_json),
               hdr_ModTime = 1700000001000000000, hdr_AccessTime = 0, hdr_ChangeTime = 0,
               hdr_Mode = 384\<rparr> example_json])"
  by (simp add: backupTar_def example_env_def example_world_def example_backup_def
      os_Create_def io_step_def Now_def tar_WriteHeader_def tar_items_def tar_Write_def
      tar_Close_def print_def written_header_def Round_Second_def)

subsection \<open>Strings through \<open>encoding/json\<close>\<close>



lemma and_then_and_then: "and_then t (and_then u x) = and_then (t @ u) x"
  by (cases x) (auto simp: and_then_def)





















subsection \<open>Round trip\<close>










subsection \<open>The launch hook\<close>

text \<open>
  C8, as the code has it. After the plain-JSON artifact and its file list are written, with
  a launch template configured, \<open>backup\<close> runs one command and returns what running it
  returns. The command line is the template with every \<open>%tag\<close> replaced by the stem and then
  every \<open>%list\<close> by \<open><stem>.backup.files\<close>, cut at every single space by
  \<open>strings.Split(ol, " ")\<close>; its first piece is the program, the others are the arguments.
  For \<open>notify.sh %tag %list\<close> and the stem \<open>app-1\<close> that is \<open>notify.sh\<close> with \<open>app-1\<close> and
  \<open>app-1.backup.files\<close>.
\<close>

theorem launch_hook:
  "(MarshalIndent E bkp = Inr b \<and> optLaunch F \<noteq> [] \<and> (\<forall>i<3. io_fail E (io_ops w + i) = None) \<longrightarrow>
      calls (snd (backup_json E F filename bkp w)) =
        calls w @ [Call_Exec (hd (launch_argv (optLaunch F) filename))
                             (tl (launch_argv (optLaunch F) filename))] \<and>
      fst (backup_json E F filename bkp w) =
        (case exec_Run E (hd (launch_argv (optLaunch F) filename))
                         (tl (launch_argv (optLaunch F) filename)) of
           Some err \<Rightarrow> Inl (Error err)
         | None \<Rightarrow> Inr ())) \<and>
   launch_argv launch filename =
     Split (Replace (Replace launch ''%tag'' filename) ''%list'' (filename @ ''.backup.files'')) '' '' \<and>
   launch_argv ''notify.sh %tag %list'' ''app-1'' = [''notify.sh'', ''app-1'', ''app-1.backup.files'']"
proof (intro conjI impI)
  assume a: "MarshalIndent E bkp = Inr b \<and> optLaunch F \<noteq> [] \<and> (\<forall>i<3. io_fail E (io_ops w + i) = None)"
  then have m: "MarshalIndent E bkp = Inr b" and io: "\<forall>i<3. io_fail E (io_ops w + i) = None"
    and l: "optLaunch F \<noteq> []"
    by simp_all
  note ok = backup_json_written [OF m io, of F filename]
  show "calls (snd (backup_json E F filename bkp w)) =
        calls w @ [Call_Exec (hd (launch_argv (optLaunch F) filename))
                             (tl (launch_argv (optLaunch F) filename))]"
    by (simp add: ok l Let_def backup_launch_eq)
  show "fst (backup_json E F filename bkp w) =
        (case exec_Run E (hd (launch_argv (optLaunch F) filename))
                         (tl (launch_argv (optLaunch F) filename)) of
           Some err \<Rightarrow> Inl (Error err)
         | None \<Rightarrow> Inr ())"
    by (simp add: ok l Let_def backup_launch_eq)
next
  show "launch_argv launch filename =
     Split (Replace (Replace launch ''%tag'' filename) ''%list'' (filename @ ''.backup.files'')) '' ''"
    by (simp add: launch_argv_def)
  show "launch_argv ''notify.sh %tag %list'' ''app-1'' = [''notify.sh'', ''app-1'', ''app-1.backup.files'']"
    by (simp add: launch_argv_def)
qed

theorem launch_hook_witness:
  "calls (snd (backup_json example_env launch_opts ''app-1'' example_backup example_world)) =
     [Call_Exec ''notify.sh'' [''app-1'', ''app-1.backup.files'']] \<and>
   fst (backup_json example_env launch_opts ''app-1'' example_backup example_world) = Inr () \<and>
   fst (backup_json exec_fails_env launch_opts ''app-1'' example_backup example_world) =
     Inl (Error ''exit status 1'')"
  using launch_hook [where E = example_env and bkp = example_backup and b = example_json
      and F = launch_opts and w = example_world and filename = "''app-1''"]
    launch_hook [where E = exec_fails_env and bkp = example_backup and b = example_json
      and F = launch_opts and w = example_world and filename = "''app-1''"]
  by (simp add: example_env_def exec_fails_env_def launch_opts_def example_opts_def
      example_world_def launch_argv_def)

text \<open>
  C8 as stated fails: the command line is not split on whitespace. Two spaces in the
  template give the command an empty argument, and a tab does not separate at all.
\<close>

theorem launch_split_is_not_on_whitespace:
  "calls (snd (backup_launch example_env ''notify.sh  %tag'' ''app-1'' example_world)) =
     [Call_Exec ''notify.sh'' ['''', ''app-1'']] \<and>
   split_on_whitespace (Replace (Replace ''notify.sh  %tag'' ''%tag'' ''app-1'') ''%list''
      (''app-1'' @ ''.backup.files'')) = [''notify.sh'', ''app-1''] \<and>
   calls (snd (backup_launch example_env (''notify.sh'' @ [CHR 0x09] @ ''%tag'') ''app-1'' example_world)) =
     [Call_Exec (''notify.sh'' @ [CHR 0x09] @ ''app-1'') []] \<and>
   split_on_whitespace (Replace (Replace (''notify.sh'' @ [CHR 0x09] @ ''%tag'') ''%tag'' ''app-1'') ''%list''
      (''app-1'' @ ''.backup.files'')) = [''notify.sh'', ''app-1'']"
  by (simp add: backup_launch_eq launch_argv_def example_world_def split_on_whitespace_def is_space_def)

end
